theory Spec2Isabelle
  imports Complex_Main
begin

section \<open>Data model\<close>

text \<open>
  The two scripts work on pandas tables. A table is modelled as the list of its rows, a row
  as a record of the columns that the code reads or writes. Numeric columns are float64 in
  the source; they are modelled as exact rationals, and a missing value (NaN, NaT, None) as
  \<open>None\<close>. Durations and session timestamps are rationals counting seconds, so
  \<open>.dt.total_seconds()\<close> is the identity.

  \<open>lap_core\<close> holds the columns that a lap carries from the provider into the season table.
  \<open>lap\<close> adds the two provider columns that the ingestion reads and then drops
  (\<open>Time\<close>, the end of the lap, and \<open>IsAccurate\<close>); \<open>row\<close> adds the columns of the
  season table and of the training table. The weather columns, and the columns that the
  feature engineering adds, are \<open>None\<close> as long as the column has not been assigned.
  The pass-through columns Stint, FreshTyre, Team and TrackStatus are read by no function
  and are left out.
\<close>

record lap_core =
  Driver :: string
  LapTime :: "rat option"
  LapNumber :: rat
  PitOutTime :: "rat option"
  PitInTime :: "rat option"
  Compound :: "string option"
  TyreLife :: "rat option"
  AirTemp :: "rat option"
  TrackTemp :: "rat option"
  Humidity :: "rat option"
  Rainfall :: "rat option"

record lap = lap_core +
  Time :: rat
  IsAccurate :: bool

record row = lap_core +
  Year :: int
  RoundNumber :: int
  EventName :: string
  CircuitLocation :: string
  LapTimeSeconds :: "rat option"
  FuelMass :: "rat option"
  Compound_Softness :: "rat option"
  TyreAge :: "int option"

datatype error = ValueError | KeyError | FileNotFoundError | SessionError

type_synonym race_key = "int \<times> string"

definition race_of :: "row \<Rightarrow> race_key" where
  "race_of r = (Year r, EventName r)"

definition race_group :: "row list \<Rightarrow> race_key \<Rightarrow> row list" where
  "race_group df k = filter (\<lambda>r. race_of r = k) df"

section \<open>build\_features.py: FeatureEngineer\<close>

subsection \<open>calculate\_fuel\_mass\<close>

text \<open>
  \<open>groupby(['Year', 'EventName'])['LapNumber'].max().to_dict()\<close>: a dictionary with one
  entry for each race that has a row, holding the largest lap number of that race.
\<close>

definition race_lengths :: "row list \<Rightarrow> race_key \<rightharpoonup> rat" where
  "race_lengths df k =
     (case map LapNumber (race_group df k) of
        [] \<Rightarrow> None
      | x # xs \<Rightarrow> Some (fold max xs x))"

definition get_fuel :: "(race_key \<rightharpoonup> rat) \<Rightarrow> row \<Rightarrow> rat" where
  "get_fuel lengths r =
     (let total_laps = (case lengths (Year r, EventName r) of Some t \<Rightarrow> t | None \<Rightarrow> 55);
          laps_remaining = total_laps - LapNumber r
      in (laps_remaining * 1.7) + 5)"

text \<open>\<open>Series.clip(lower=...)\<close>\<close>

definition clip_lower :: "rat \<Rightarrow> rat \<Rightarrow> rat" where
  "clip_lower lower x = (if x < lower then lower else x)"

definition calculate_fuel_mass :: "row list \<Rightarrow> row list" where
  "calculate_fuel_mass df =
     (let lengths = race_lengths df
      in map (\<lambda>r. r\<lparr>FuelMass := Some (clip_lower 2.0 (get_fuel lengths r))\<rparr>) df)"

subsection \<open>encode\_physics\_features\<close>

definition compound_map :: "string \<rightharpoonup> rat" where
  "compound_map =
     map_of [(''HARD'', 1), (''MEDIUM'', 2), (''SOFT'', 3), (''INTERMEDIATE'', 0), (''WET'', 0)]"

text \<open>\<open>Series.map(dict)\<close>: a value that is missing or is no key of the dictionary maps to NaN.\<close>

definition map_compound :: "string option \<Rightarrow> rat option" where
  "map_compound c = (case c of None \<Rightarrow> None | Some s \<Rightarrow> compound_map s)"

text \<open>The mask \<open>df['Compound_Softness'] > 0\<close>: a comparison with NaN is False.\<close>

definition softness_positive :: "row \<Rightarrow> bool" where
  "softness_positive r = (case Compound_Softness r of None \<Rightarrow> False | Some s \<Rightarrow> s > 0)"

text \<open>\<open>astype(int)\<close> on a float discards the fractional part (rounds towards zero).\<close>

definition astype_int :: "rat \<Rightarrow> int" where
  "astype_int x = (if x < 0 then \<lceil>x\<rceil> else \<lfloor>x\<rfloor>)"

definition fillna :: "'a \<Rightarrow> 'a option \<Rightarrow> 'a" where
  "fillna v x = (case x of None \<Rightarrow> v | Some y \<Rightarrow> y)"

text \<open>
  \<open>Series.median()\<close> skips missing values; the caller passes the values that are present.
  It is the middle value of the sorted values, the mean of the two middle values when their
  number is even, and NaN when there is none.
\<close>

definition median :: "rat list \<Rightarrow> rat option" where
  "median xs =
     (let s = sort xs; n = length s
      in if n = 0 then None
         else if odd n then Some (s ! (n div 2))
         else Some ((s ! (n div 2 - 1) + s ! (n div 2)) / 2))"

definition present :: "'a option list \<Rightarrow> 'a list" where
  "present xs = List.map_filter id xs"

text \<open>
  \<open>groupby([...])['TrackTemp'].transform(lambda x: x.fillna(x.median()))\<close>: filling with a
  NaN median leaves the missing value missing.
\<close>

definition fill_track_temp :: "row list \<Rightarrow> row \<Rightarrow> rat option" where
  "fill_track_temp df r =
     (case TrackTemp r of
        Some t \<Rightarrow> Some t
      | None \<Rightarrow> median (present (map TrackTemp (race_group df (race_of r)))))"

text \<open>
  The function returns the new table together with the number of dropped rows that it logs.
\<close>

definition encode_physics_features :: "row list \<Rightarrow> row list \<times> nat" where
  "encode_physics_features df =
     (let df1 = map (\<lambda>r. r\<lparr>Compound_Softness := map_compound (Compound r)\<rparr>) df;
          initial_count = length df1;
          df2 = filter softness_positive df1;
          dropped = initial_count - length df2;
          df3 = map (\<lambda>r. r\<lparr>TyreAge := Some (astype_int (fillna 1 (TyreLife r)))\<rparr>) df2;
          df4 = map (\<lambda>r. r\<lparr>TrackTemp := fill_track_temp df3 r\<rparr>) df3
      in (df4, dropped))"

subsection \<open>create\_target\_variable\<close>

text \<open>
  \<open>groupby([...])['LapTimeSeconds'].median()\<close>: a series indexed by the races that have a
  row. Its value is NaN (\<open>Some None\<close>) for a race all of whose lap times are missing, and
  \<open>.loc\<close> raises KeyError for a race that is no index of the series.
\<close>

definition race_medians :: "row list \<Rightarrow> race_key \<rightharpoonup> rat option" where
  "race_medians df k =
     (case race_group df k of
        [] \<Rightarrow> None
      | g \<Rightarrow> Some (median (present (map LapTimeSeconds g))))"

definition is_outlier :: "(race_key \<rightharpoonup> rat option) \<Rightarrow> row \<Rightarrow> error + bool" where
  "is_outlier medians r =
     (case medians (Year r, EventName r) of
        None \<Rightarrow> Inl KeyError
      | Some median_pace \<Rightarrow>
          Inr (case (LapTimeSeconds r, median_pace) of
                 (Some t, Some m) \<Rightarrow> t > m * 1.2
               | _ \<Rightarrow> False))"

text \<open>\<open>df.apply(f, axis=1)\<close>: the function is applied row by row; the first exception ends the run.\<close>

fun apply_rows :: "(row \<Rightarrow> error + 'b) \<Rightarrow> row list \<Rightarrow> error + 'b list" where
  "apply_rows f [] = Inr []"
| "apply_rows f (r # rs) =
     (case f r of
        Inl e \<Rightarrow> Inl e
      | Inr v \<Rightarrow> (case apply_rows f rs of Inl e \<Rightarrow> Inl e | Inr vs \<Rightarrow> Inr (v # vs)))"

text \<open>
  The function returns the new table together with the number of outliers that it logs
  (\<open>outliers.sum()\<close>).
\<close>

definition create_target_variable :: "row list \<Rightarrow> error + (row list \<times> nat)" where
  "create_target_variable df =
     (case apply_rows (is_outlier (race_medians df)) df of
        Inl e \<Rightarrow> Inl e
      | Inr outliers \<Rightarrow>
          Inr (map fst (filter (\<lambda>(r, out). \<not> out) (zip df outliers)),
               length (filter id outliers)))"

section \<open>ingest\_data.py\<close>

text \<open>
  The data provider is outside the repository. The functions of numpy and FastF1 that the
  script calls are modelled from their documented behaviour.
\<close>

text \<open>
  A row of the session's weather table. Its columns are Time, AirTemp, TrackTemp, Humidity
  and Rainfall; the fields carry a prefix because the lap table has columns of the same
  names.
\<close>

record weather_sample =
  Weather_Time :: rat
  Weather_AirTemp :: rat
  Weather_TrackTemp :: rat
  Weather_Humidity :: rat
  Weather_Rainfall :: rat

text \<open>What the script reads of a loaded FastF1 session: \<open>session.laps\<close> and \<open>session.weather_data\<close>.\<close>

record session =
  laps :: "lap list"
  weather_data :: "weather_sample list"

text \<open>
  A row of the event schedule. The fields carry a prefix because the season table has
  columns RoundNumber and EventName.
\<close>

record schedule_entry =
  Schedule_RoundNumber :: int
  Schedule_EventName :: string
  Schedule_Location :: string
  Schedule_EventFormat :: string

subsection \<open>numpy.interp\<close>

text \<open>
  \<open>np.interp(x, xp, fp)\<close> evaluates, at each point of \<open>x\<close>, the interpolant through the sample
  points \<open>(xp, fp)\<close>. For each point the library looks up the index \<open>j\<close> of the last sample
  point that is not greater than the point; \<open>linear_search\<close> is the forward scan
  \<open>for (i = 1; i < len && key >= arr[i]; ++i)\<close> that it uses for this on short arrays (on a
  sorted array its bisection returns the same index).
\<close>

function linear_search :: "rat \<Rightarrow> rat list \<Rightarrow> nat \<Rightarrow> nat" where
  "linear_search key arr i =
     (if i < length arr \<and> key \<ge> arr ! i then linear_search key arr (i + 1) else i)"
  by pat_completeness auto

termination
  by (relation "measure (\<lambda>(key, arr, i). length arr - i)") auto

declare linear_search.simps [simp del]

text \<open>
  The value at one point: \<open>fp[0]\<close> to the left of the first sample point, \<open>fp[-1]\<close> to the
  right of the last one, the sample value at a sample point, and otherwise
  \<open>slope * (x - xp[j]) + fp[j]\<close>.
\<close>

definition interp_point :: "rat list \<Rightarrow> rat list \<Rightarrow> rat \<Rightarrow> rat" where
  "interp_point xp fp x =
     (let lenxp = length xp; lval = fp ! 0; rval = fp ! (lenxp - 1)
      in if lenxp = 1 then
           (if x < xp ! 0 then lval else if x > xp ! 0 then rval else fp ! 0)
         else if x > xp ! (lenxp - 1) then rval
         else if x < xp ! 0 then lval
         else
           (let j = linear_search x xp 1 - 1
            in if j = lenxp - 1 then fp ! j
               else if xp ! j = x then fp ! j
               else
                 (let slope = (fp ! (j + 1) - fp ! j) / (xp ! (j + 1) - xp ! j)
                  in slope * (x - xp ! j) + fp ! j)))"

text \<open>
  The library raises ValueError for an empty array of sample points, and when \<open>fp\<close> and \<open>xp\<close>
  differ in length.
\<close>

definition np_interp :: "rat list \<Rightarrow> rat list \<Rightarrow> rat list \<Rightarrow> error + rat list" where
  "np_interp x xp fp =
     (if xp = [] then Inl ValueError
      else if length fp \<noteq> length xp then Inl ValueError
      else Inr (map (interp_point xp fp) x))"

subsection \<open>enrich\_laps\_with\_weather\<close>

text \<open>
  One pass of the loop over \<open>weather_cols\<close>: \<open>laps[col] = np.interp(laps['TimeSec'],
  weather['TimeSec'], weather[col])\<close>.
\<close>

definition interp_column ::
  "(weather_sample \<Rightarrow> rat) \<Rightarrow> (rat option \<Rightarrow> lap \<Rightarrow> lap) \<Rightarrow> weather_sample list \<Rightarrow> lap list
     \<Rightarrow> error + lap list" where
  "interp_column col assign weather ls =
     (case np_interp (map Time ls) (map Weather_Time weather) (map col weather) of
        Inl e \<Rightarrow> Inl e
      | Inr vs \<Rightarrow> Inr (map (\<lambda>(l, v). assign (Some v) l) (zip ls vs)))"

text \<open>
  The function takes its laps from \<open>session.laps\<close> and assigns the columns AirTemp,
  TrackTemp, Humidity and Rainfall in this order.
\<close>

definition enrich_laps_with_weather :: "session \<Rightarrow> error + lap list" where
  "enrich_laps_with_weather s =
     (let ls = laps s; weather = weather_data s
      in case interp_column Weather_AirTemp (\<lambda>v l. l\<lparr>AirTemp := v\<rparr>) weather ls of
           Inl e \<Rightarrow> Inl e
         | Inr ls1 \<Rightarrow>
       (case interp_column Weather_TrackTemp (\<lambda>v l. l\<lparr>TrackTemp := v\<rparr>) weather ls1 of
           Inl e \<Rightarrow> Inl e
         | Inr ls2 \<Rightarrow>
       (case interp_column Weather_Humidity (\<lambda>v l. l\<lparr>Humidity := v\<rparr>) weather ls2 of
           Inl e \<Rightarrow> Inl e
         | Inr ls3 \<Rightarrow> interp_column Weather_Rainfall (\<lambda>v l. l\<lparr>Rainfall := v\<rparr>) weather ls3)))"

subsection \<open>process\_season\<close>

text \<open>
  FastF1's \<open>Laps.pick_accurate\<close> keeps the laps whose IsAccurate flag is set, and
  \<open>Laps.pick_wo_box\<close> the laps that have neither a PitInTime nor a PitOutTime.
\<close>

definition pick_accurate :: "lap list \<Rightarrow> lap list" where
  "pick_accurate ls = filter IsAccurate ls"

definition pick_wo_box :: "lap list \<Rightarrow> lap list" where
  "pick_wo_box ls = filter (\<lambda>l. PitInTime l = None \<and> PitOutTime l = None) ls"

text \<open>
  Steps 3 and 4 of the loop body: the context columns are assigned and the columns of
  \<open>keep_cols\<close> are selected.
\<close>

definition keep_cols :: "int \<Rightarrow> schedule_entry \<Rightarrow> lap \<Rightarrow> row" where
  "keep_cols year race l =
     \<lparr>Driver = Driver l, LapTime = LapTime l, LapNumber = LapNumber l,
      PitOutTime = PitOutTime l, PitInTime = PitInTime l, Compound = Compound l,
      TyreLife = TyreLife l, AirTemp = AirTemp l, TrackTemp = TrackTemp l,
      Humidity = Humidity l, Rainfall = Rainfall l,
      Year = year, RoundNumber = Schedule_RoundNumber race,
      EventName = Schedule_EventName race, CircuitLocation = Schedule_Location race,
      LapTimeSeconds = None, FuelMass = None, Compound_Softness = None, TyreAge = None\<rparr>"

text \<open>
  The body of the loop over the races. \<open>load_session\<close> stands for \<open>fastf1.get_session\<close>
  followed by \<open>session.load\<close>, which may raise. \<open>None\<close> is a round that is skipped: by
  \<open>continue\<close> when no clean lap is found, or by the \<open>except\<close> clause.
\<close>

definition process_race ::
  "(int \<Rightarrow> int \<Rightarrow> error + session) \<Rightarrow> int \<Rightarrow> schedule_entry \<Rightarrow> row list option" where
  "process_race load_session year race =
     (case load_session year (Schedule_RoundNumber race) of
        Inl e \<Rightarrow> None
      | Inr s \<Rightarrow>
          (let clean_laps = pick_wo_box (pick_accurate (laps s))
           in if clean_laps = [] then None
              else (case enrich_laps_with_weather s of
                      Inl e \<Rightarrow> None
                    | Inr clean_laps \<Rightarrow> Some (map (keep_cols year race) clean_laps))))"

fun process_races ::
  "(int \<Rightarrow> int \<Rightarrow> error + session) \<Rightarrow> int \<Rightarrow> schedule_entry list \<Rightarrow> row list list" where
  "process_races load_session year [] = []"
| "process_races load_session year (race # races) =
     (case process_race load_session year race of
        None \<Rightarrow> process_races load_session year races
      | Some rows \<Rightarrow> rows # process_races load_session year races)"

text \<open>
  The schedule is a parameter (\<open>fastf1.get_event_schedule\<close>). The result is \<open>None\<close> when no
  round contributed a table.
\<close>

definition process_season ::
  "(int \<Rightarrow> int \<Rightarrow> error + session) \<Rightarrow> schedule_entry list \<Rightarrow> int \<Rightarrow> row list option" where
  "process_season load_session schedule year =
     (let races = filter (\<lambda>e. Schedule_EventFormat e \<noteq> ''testing'') schedule;
          all_season_laps = process_races load_session year races
      in if all_season_laps = [] then None
         else Some (map (\<lambda>r. r\<lparr>LapTimeSeconds := LapTime r\<rparr>) (concat all_season_laps)))"

section \<open>Predicates of the specification\<close>

text \<open>
  The following predicates state, in the words of the specification, what the properties
  below compare the code with.
\<close>

text \<open>
  The row's LapTimeSeconds strictly exceeds 1.20 times the median LapTimeSeconds of the
  rows of its race in the table.
\<close>

definition slow :: "row list \<Rightarrow> row \<Rightarrow> bool" where
  "slow df r = (\<exists>t m. LapTimeSeconds r = Some t
      \<and> median (present (map LapTimeSeconds (race_group df (race_of r)))) = Some m
      \<and> t > 1.2 * m)"

text \<open>The compound of the row has a strictly positive score.\<close>

definition positive_score :: "row \<Rightarrow> bool" where
  "positive_score r = (case map_compound (Compound r) of None \<Rightarrow> False | Some s \<Rightarrow> 0 < s)"

text \<open>The row without the values of the columns that encode\_physics\_features assigns.\<close>

definition written_columns_blank :: "row \<Rightarrow> row" where
  "written_columns_blank r = r\<lparr>Compound_Softness := None, TyreAge := None, TrackTemp := None\<rparr>"


text \<open>The value that enrich\_laps\_with\_weather computes for a channel at a lap's end time.\<close>

definition channel_at :: "weather_sample list \<Rightarrow> (weather_sample \<Rightarrow> rat) \<Rightarrow> rat \<Rightarrow> rat" where
  "channel_at weather col t = interp_point (map Weather_Time weather) (map col weather) t"

section \<open>Example tables\<close>

definition row0 :: row where
  "row0 = \<lparr>Driver = ''VER'', LapTime = Some 90, LapNumber = 1, PitOutTime = None,
     PitInTime = None, Compound = Some ''HARD'', TyreLife = Some 3, AirTemp = Some 20,
     TrackTemp = Some 30, Humidity = Some 50, Rainfall = Some 0, Year = 2022,
     RoundNumber = 14, EventName = ''Belgian Grand Prix'', CircuitLocation = ''Spa'',
     LapTimeSeconds = Some 90, FuelMass = None, Compound_Softness = None, TyreAge = None\<rparr>"

definition lap_times_table :: "rat list \<Rightarrow> row list" where
  "lap_times_table ts = map (\<lambda>t. row0\<lparr>LapTimeSeconds := Some t\<rparr>) ts"

definition compounds_table :: "string list \<Rightarrow> row list" where
  "compounds_table cs = map (\<lambda>c. row0\<lparr>Compound := Some c\<rparr>) cs"

definition lap_numbers_table :: "rat list \<Rightarrow> row list" where
  "lap_numbers_table ns = map (\<lambda>n. row0\<lparr>LapNumber := n\<rparr>) ns"

definition lap0 :: lap where
  "lap0 = \<lparr>Driver = ''VER'', LapTime = Some 90, LapNumber = 1, PitOutTime = None,
     PitInTime = None, Compound = Some ''HARD'', TyreLife = Some 3, AirTemp = None,
     TrackTemp = None, Humidity = None, Rainfall = None, Time = 50, IsAccurate = True\<rparr>"

definition weather0 :: "weather_sample list" where
  "weather0 =
     [\<lparr>Weather_Time = 0, Weather_AirTemp = 20, Weather_TrackTemp = 20,
       Weather_Humidity = 20, Weather_Rainfall = 20\<rparr>,
      \<lparr>Weather_Time = 100, Weather_AirTemp = 30, Weather_TrackTemp = 30,
       Weather_Humidity = 30, Weather_Rainfall = 30\<rparr>]"

definition session0 :: session where
  "session0 =
     \<lparr>laps = [lap0, lap0\<lparr>LapNumber := 2, Time := 150, IsAccurate := False\<rparr>,
              lap0\<lparr>LapNumber := 3, Time := - 10\<rparr>],
      weather_data = weather0\<rparr>"

definition race0 :: schedule_entry where
  "race0 = \<lparr>Schedule_RoundNumber = 14, Schedule_EventName = ''Belgian Grand Prix'',
     Schedule_Location = ''Spa'', Schedule_EventFormat = ''conventional''\<rparr>"

definition load0 :: "int \<Rightarrow> int \<Rightarrow> error + session" where
  "load0 year round_number = Inr session0"

section \<open>Properties\<close>

subsection \<open>The outlier filter\<close>

lemma race_group_member: "r \<in> set df \<Longrightarrow> r \<in> set (race_group df (race_of r))"
  by (simp add: race_group_def)

lemma apply_rows_total:
  "(\<And>r. r \<in> set rs \<Longrightarrow> f r = Inr (g r)) \<Longrightarrow> apply_rows f rs = Inr (map g rs)"
  by (induction rs) auto

lemma filter_zip_flags:
  "map fst (filter (\<lambda>(r, out). \<not> out) (zip rs (map g rs))) = filter (\<lambda>r. \<not> g r) rs"
  by (induction rs) auto

lemma count_flags: "length (filter id (map g rs)) = length (filter g rs)"
  by (induction rs) auto

lemma is_outlier_slow:
  assumes "r \<in> set df"
  shows "is_outlier (race_medians df) r = Inr (slow df r)"
proof -
  from assms have "race_group df (race_of r) \<noteq> []"
    using race_group_member by fastforce
  then obtain x xs where g: "race_group df (race_of r) = x # xs"
    by (cases "race_group df (race_of r)") auto
  have "race_medians df (Year r, EventName r) = Some (median (present (map LapTimeSeconds (race_group df (race_of r)))))"
    using g by (simp add: race_medians_def race_of_def)
  then show ?thesis
    by (auto simp: is_outlier_def slow_def mult.commute split: option.splits)
qed

lemma create_target_variable_eq:
  "create_target_variable df = Inr (filter (\<lambda>r. \<not> slow df r) df, length (filter (slow df) df))"
proof -
  have "apply_rows (is_outlier (race_medians df)) df = Inr (map (slow df) df)"
    by (rule apply_rows_total) (rule is_outlier_slow)
  then show ?thesis
    by (simp add: create_target_variable_def filter_zip_flags count_flags)
qed

lemma sort_nth_mem: "k < length xs \<Longrightarrow> sort xs ! k \<in> set xs"
  by (metis length_sort nth_mem set_sort)

lemma sort_nth_ge_hd: "k < length xs \<Longrightarrow> sort xs ! 0 \<le> sort xs ! k"
  by (metis le0 length_sort sorted_nth_mono sorted_sort)

lemma median_unfold:
  "median xs =
     (if xs = [] then None
      else if odd (length xs) then Some (sort xs ! (length xs div 2))
      else Some ((sort xs ! (length xs div 2 - 1) + sort xs ! (length xs div 2)) / 2))"
  unfolding median_def Let_def by (simp only: length_sort length_0_conv)

lemma median_Some: "xs \<noteq> [] \<Longrightarrow> \<exists>m. median xs = Some m"
  by (simp only: median_unfold if_False split: if_split) blast

lemma median_ge_least:
  assumes "median xs = Some m"
  shows "\<exists>x\<in>set xs. x \<le> m"
proof -
  from assms have ne: "xs \<noteq> []" by (auto simp: median_unfold)
  then have n: "0 < length xs" by simp
  have mem: "sort xs ! 0 \<in> set xs" using n by (rule sort_nth_mem)
  have "sort xs ! 0 \<le> m"
  proof (cases "odd (length xs)")
    case True
    with assms ne have "m = sort xs ! (length xs div 2)" by (simp add: median_unfold)
    moreover have "length xs div 2 < length xs" using n by simp
    ultimately show ?thesis using sort_nth_ge_hd by simp
  next
    case False
    with assms ne have m: "m = (sort xs ! (length xs div 2 - 1) + sort xs ! (length xs div 2)) / 2"
      by (simp add: median_unfold)
    have "length xs div 2 - 1 < length xs" "length xs div 2 < length xs" using n by linarith+
    then have "sort xs ! 0 \<le> sort xs ! (length xs div 2 - 1)" "sort xs ! 0 \<le> sort xs ! (length xs div 2)"
      using sort_nth_ge_hd by blast+
    then show ?thesis unfolding m by simp
  qed
  with mem show ?thesis by blast
qed

lemma median_nonneg:
  assumes "median xs = Some m" and "\<forall>x\<in>set xs. 0 \<le> x"
  shows "0 \<le> m"
proof -
  obtain x where "x \<in> set xs" "x \<le> m" using median_ge_least[OF assms(1)] by blast
  with assms(2) show ?thesis by force
qed

lemma present_set: "set (present xs) = {x. Some x \<in> set xs}"
  by (induction xs) (auto simp: present_def split: option.splits)


lemma median_example: "median [90, 107, 110, 80, 90] = Some 90"
  by (simp add: median_def)

lemma lap_times_group: "race_group (lap_times_table ts) (race_of (row0\<lparr>LapTimeSeconds := t\<rparr>)) = lap_times_table ts"
  by (simp add: race_group_def lap_times_table_def race_of_def row0_def filter_map o_def)

lemma lap_times_present: "present (map LapTimeSeconds (lap_times_table ts)) = ts"
  by (induction ts) (simp_all add: present_def lap_times_table_def)


lemma race_group_filter:
  "race_group (filter P df) k = filter P (race_group df k)"
  by (auto simp: race_group_def intro: filter_cong)

lemma not_slow_below_median:
  assumes nonneg: "\<forall>r\<in>set df. \<forall>t. LapTimeSeconds r = Some t \<longrightarrow> 0 \<le> t"
    and t: "LapTimeSeconds r = Some t"
    and m: "median (present (map LapTimeSeconds (race_group df (race_of r)))) = Some m"
    and le: "t \<le> m"
  shows "\<not> slow df r"
proof -
  have "\<forall>x\<in>set (present (map LapTimeSeconds (race_group df (race_of r)))). 0 \<le> x"
    using nonneg by (auto simp: present_set race_group_def)
  with m have "0 \<le> m" by (rule median_nonneg)
  then have "m \<le> 1.2 * m" by simp
  with le t m show ?thesis by (auto simp: slow_def)
qed

lemma group_keeps_a_row:
  assumes nonneg: "\<forall>r\<in>set df. \<forall>t. LapTimeSeconds r = Some t \<longrightarrow> 0 \<le> t"
    and ne: "race_group df k \<noteq> []"
  shows "\<exists>r\<in>set (race_group df k). \<not> slow df r"
proof (cases "present (map LapTimeSeconds (race_group df k)) = []")
  case True
  from ne obtain r where r: "r \<in> set (race_group df k)" by (cases "race_group df k") auto
  then have k: "race_of r = k" by (simp add: race_group_def)
  have "median (present (map LapTimeSeconds (race_group df k))) = None"
    using True by (simp add: median_unfold)
  with k have "\<not> slow df r" by (simp add: slow_def)
  with r show ?thesis by blast
next
  case False
  then obtain m where m: "median (present (map LapTimeSeconds (race_group df k))) = Some m"
    using median_Some by blast
  then obtain t where t: "t \<in> set (present (map LapTimeSeconds (race_group df k)))" "t \<le> m"
    using median_ge_least by blast
  then obtain r where r: "r \<in> set (race_group df k)" "LapTimeSeconds r = Some t"
    by (auto simp: present_set)
  then have k: "race_of r = k" by (simp add: race_group_def)
  have "\<not> slow df r"
    using not_slow_below_median[OF nonneg r(2) _ t(2)] m k by simp
  with r show ?thesis by blast
qed

text \<open>
  C10. If no LapTimeSeconds of the table is negative, create\_target\_variable keeps every
  row whose LapTimeSeconds is at most the median of its race, and every race that has a row
  before the filter has one after it.
\<close>

theorem outlier_filter_keeps_fast_rows:
  assumes "\<forall>r\<in>set df. \<forall>t. LapTimeSeconds r = Some t \<longrightarrow> 0 \<le> t"
  shows "\<exists>out n. create_target_variable df = Inr (out, n)
     \<and> (\<forall>r\<in>set df. \<forall>t m. LapTimeSeconds r = Some t
            \<and> median (present (map LapTimeSeconds (race_group df (race_of r)))) = Some m
            \<and> t \<le> m \<longrightarrow> r \<in> set out)
     \<and> (\<forall>k. race_group df k \<noteq> [] \<longrightarrow> race_group out k \<noteq> [])"
proof -
  let ?out = "filter (\<lambda>r. \<not> slow df r) df"
  have 1: "create_target_variable df = Inr (?out, length (filter (slow df) df))"
    by (rule create_target_variable_eq)
  have 2: "\<forall>r\<in>set df. \<forall>t m. LapTimeSeconds r = Some t
            \<and> median (present (map LapTimeSeconds (race_group df (race_of r)))) = Some m
            \<and> t \<le> m \<longrightarrow> r \<in> set ?out"
    using not_slow_below_median[OF assms] by auto
  have 3: "\<forall>k. race_group df k \<noteq> [] \<longrightarrow> race_group ?out k \<noteq> []"
  proof (intro allI impI)
    fix k assume "race_group df k \<noteq> []"
    then obtain r where "r \<in> set (race_group df k)" "\<not> slow df r"
      using group_keeps_a_row[OF assms] by blast
    then have "r \<in> set (race_group ?out k)" by (simp add: race_group_filter)
    then show "race_group ?out k \<noteq> []" by auto
  qed
  from 1 2 3 show ?thesis by blast
qed

theorem outlier_filter_keeps_fast_rows_witness:
  "map LapTimeSeconds (lap_times_table [90, 107, 110, 80, 90]) = [Some 90, Some 107, Some 110, Some 80, Some 90]
   \<and> (\<exists>out n. create_target_variable (lap_times_table [90, 107, 110, 80, 90]) = Inr (out, n)
        \<and> row0\<lparr>LapTimeSeconds := Some 80\<rparr> \<in> set out
        \<and> race_group out (race_of row0) \<noteq> [])"
proof -
  let ?df = "lap_times_table [90, 107, 110, 80, 90]"
  let ?a = "row0\<lparr>LapTimeSeconds := Some 80\<rparr>"
  have h: "\<forall>r\<in>set ?df. \<forall>t. LapTimeSeconds r = Some t \<longrightarrow> 0 \<le> t"
    by (simp add: lap_times_table_def)
  have ma: "median (present (map LapTimeSeconds (race_group ?df (race_of ?a)))) = Some 90"
    by (simp only: lap_times_group lap_times_present median_example)
  have mema: "?a \<in> set ?df" by (simp add: lap_times_table_def)
  have la: "LapTimeSeconds ?a = Some 80" by simp
  have g: "race_group ?df (race_of row0) \<noteq> []"
    using lap_times_group[of "[90, 107, 110, 80, 90]" "LapTimeSeconds row0"] by (simp add: lap_times_table_def)
  from outlier_filter_keeps_fast_rows[OF h] obtain out n where
    o: "create_target_variable ?df = Inr (out, n)"
      "\<forall>r\<in>set ?df. \<forall>t m. LapTimeSeconds r = Some t
            \<and> median (present (map LapTimeSeconds (race_group ?df (race_of r)))) = Some m
            \<and> t \<le> m \<longrightarrow> r \<in> set out"
      "\<forall>k. race_group ?df k \<noteq> [] \<longrightarrow> race_group out k \<noteq> []"
    by blast
  from o(2) mema ma la have "?a \<in> set out" by force
  moreover from o(3) g have "race_group out (race_of row0) \<noteq> []" by blast
  moreover have "map LapTimeSeconds ?df = [Some 90, Some 107, Some 110, Some 80, Some 90]"
    by (simp add: lap_times_table_def)
  ultimately show ?thesis using o(1) by blast
qed

subsection \<open>Compound score and tire age\<close>

lemma map_compound_table:
  "map_compound (Some ''HARD'') = Some 1"
  "map_compound (Some ''MEDIUM'') = Some 2"
  "map_compound (Some ''SOFT'') = Some 3"
  "map_compound (Some ''INTERMEDIATE'') = Some 0"
  "map_compound (Some ''WET'') = Some 0"
  "map_compound None = None"
  by (simp_all add: map_compound_def compound_map_def)

lemma map_compound_unmapped:
  "c \<notin> {''HARD'', ''MEDIUM'', ''SOFT'', ''INTERMEDIATE'', ''WET''} \<Longrightarrow> map_compound (Some c) = None"
  by (simp add: map_compound_def compound_map_def)

lemma positive_score_iff:
  "positive_score r \<longleftrightarrow> Compound r \<in> {Some ''HARD'', Some ''MEDIUM'', Some ''SOFT''}"
proof (cases "Compound r")
  case None
  then show ?thesis by (simp add: positive_score_def map_compound_def)
next
  case (Some c)
  consider "c = ''HARD''" | "c = ''MEDIUM''" | "c = ''SOFT''" | "c = ''INTERMEDIATE''" | "c = ''WET''"
    | "c \<notin> {''HARD'', ''MEDIUM'', ''SOFT'', ''INTERMEDIATE'', ''WET''}"
    by blast
  then show ?thesis
  proof cases
    case 1
    then show ?thesis by (simp add: positive_score_def Some map_compound_table)
  next
    case 2
    then show ?thesis by (simp add: positive_score_def Some map_compound_table)
  next
    case 3
    then show ?thesis by (simp add: positive_score_def Some map_compound_table)
  next
    case 4
    then show ?thesis by (simp add: positive_score_def Some map_compound_table)
  next
    case 5
    then show ?thesis by (simp add: positive_score_def Some map_compound_table)
  next
    case 6
    then have "map_compound (Some c) = None" by (rule map_compound_unmapped)
    with 6 show ?thesis by (simp add: positive_score_def Some)
  qed
qed

lemma softness_positive_mapped:
  "softness_positive (r\<lparr>Compound_Softness := map_compound (Compound r)\<rparr>) = positive_score r"
  by (simp add: softness_positive_def positive_score_def)

lemma encode_rows:
  "fst (encode_physics_features df) =
     (let kept = map (\<lambda>r. r\<lparr>Compound_Softness := map_compound (Compound r),
                             TyreAge := Some (astype_int (fillna 1 (TyreLife r)))\<rparr>)
                     (filter positive_score df)
      in map (\<lambda>r. r\<lparr>TrackTemp := fill_track_temp kept r\<rparr>) kept)"
  by (simp add: encode_physics_features_def Let_def filter_map o_def softness_positive_mapped)

lemma encode_dropped:
  "snd (encode_physics_features df) = length (filter (\<lambda>r. \<not> positive_score r) df)"
proof -
  have "length df = length (filter positive_score df) + length (filter (\<lambda>r. \<not> positive_score r) df)"
    by (rule sum_length_filter_compl[symmetric])
  then show ?thesis
    by (simp add: encode_physics_features_def Let_def filter_map o_def softness_positive_mapped)
qed

lemma encode_blank:
  "map written_columns_blank (fst (encode_physics_features df)) =
   map written_columns_blank (filter positive_score df)"
  by (simp add: encode_rows Let_def o_def written_columns_blank_def)

lemma encode_row_columns:
  assumes "r \<in> set (fst (encode_physics_features df))"
  shows "Compound_Softness r = map_compound (Compound r) \<and> positive_score r
     \<and> TyreAge r = Some (astype_int (fillna 1 (TyreLife r)))"
  using assms by (auto simp: encode_rows Let_def positive_score_def)

lemma wet_inter_count:
  assumes "\<forall>r\<in>set df. Compound r \<in> {Some ''HARD'', Some ''SOFT'', Some ''WET'', Some ''INTERMEDIATE''}"
  shows "length (filter (\<lambda>r. \<not> positive_score r) df) =
     length (filter (\<lambda>r. Compound r = Some ''WET'') df) + length (filter (\<lambda>r. Compound r = Some ''INTERMEDIATE'') df)"
  using assms by (induction df) (auto simp: positive_score_iff)

lemma hard_soft_filter:
  assumes "\<forall>r\<in>set df. Compound r \<in> {Some ''HARD'', Some ''SOFT'', Some ''WET'', Some ''INTERMEDIATE''}"
  shows "filter positive_score df = filter (\<lambda>r. Compound r \<in> {Some ''HARD'', Some ''SOFT''}) df"
  using assms by (intro filter_cong refl) (auto simp: positive_score_iff)

text \<open>
  C5. encode\_physics\_features maps the compound to the score HARD 1, MEDIUM 2, SOFT 3,
  INTERMEDIATE 0, WET 0, and an unmapped or missing compound to a missing score; it retains,
  in order, exactly the rows whose score is strictly positive, and reports the number of the
  others. A table whose compounds are among HARD, SOFT, WET, INTERMEDIATE retains the HARD
  and SOFT rows, and the reported number is the number of WET rows plus that of
  INTERMEDIATE rows.
\<close>

theorem compound_filter:
  "map_compound (Some ''HARD'') = Some 1 \<and> map_compound (Some ''MEDIUM'') = Some 2
   \<and> map_compound (Some ''SOFT'') = Some 3 \<and> map_compound (Some ''INTERMEDIATE'') = Some 0
   \<and> map_compound (Some ''WET'') = Some 0 \<and> map_compound None = None
   \<and> (c \<notin> {''HARD'', ''MEDIUM'', ''SOFT'', ''INTERMEDIATE'', ''WET''} \<longrightarrow> map_compound (Some c) = None)
   \<and> (\<forall>r\<in>set (fst (encode_physics_features df)). Compound_Softness r = map_compound (Compound r))
   \<and> map written_columns_blank (fst (encode_physics_features df)) =
       map written_columns_blank (filter positive_score df)
   \<and> snd (encode_physics_features df) = length (filter (\<lambda>r. \<not> positive_score r) df)
   \<and> ((\<forall>r\<in>set df. Compound r \<in> {Some ''HARD'', Some ''SOFT'', Some ''WET'', Some ''INTERMEDIATE''}) \<longrightarrow>
        map written_columns_blank (fst (encode_physics_features df)) =
          map written_columns_blank (filter (\<lambda>r. Compound r \<in> {Some ''HARD'', Some ''SOFT''}) df)
        \<and> snd (encode_physics_features df) =
          length (filter (\<lambda>r. Compound r = Some ''WET'') df)
          + length (filter (\<lambda>r. Compound r = Some ''INTERMEDIATE'') df))"
proof -
  have a: "\<forall>r\<in>set (fst (encode_physics_features df)). Compound_Softness r = map_compound (Compound r)"
    using encode_row_columns by blast
  have b: "(\<forall>r\<in>set df. Compound r \<in> {Some ''HARD'', Some ''SOFT'', Some ''WET'', Some ''INTERMEDIATE''}) \<longrightarrow>
        map written_columns_blank (fst (encode_physics_features df)) =
          map written_columns_blank (filter (\<lambda>r. Compound r \<in> {Some ''HARD'', Some ''SOFT''}) df)
        \<and> snd (encode_physics_features df) =
          length (filter (\<lambda>r. Compound r = Some ''WET'') df)
          + length (filter (\<lambda>r. Compound r = Some ''INTERMEDIATE'') df)"
    by (simp only: encode_blank encode_dropped) (metis wet_inter_count hard_soft_filter)
  have c: "c \<notin> {''HARD'', ''MEDIUM'', ''SOFT'', ''INTERMEDIATE'', ''WET''} \<longrightarrow> map_compound (Some c) = None"
    using map_compound_unmapped by blast
  show ?thesis
    by (intro conjI map_compound_table a b c encode_blank encode_dropped)
qed

theorem compound_filter_witness:
  "map Compound (compounds_table [''HARD'', ''SOFT'', ''WET'', ''INTERMEDIATE'']) =
       [Some ''HARD'', Some ''SOFT'', Some ''WET'', Some ''INTERMEDIATE'']
   \<and> ''UNKNOWN'' \<notin> {''HARD'', ''MEDIUM'', ''SOFT'', ''INTERMEDIATE'', ''WET''}
   \<and> map_compound (Some ''UNKNOWN'') = None
   \<and> map written_columns_blank (fst (encode_physics_features (compounds_table [''HARD'', ''SOFT'', ''WET'', ''INTERMEDIATE'']))) =
       map written_columns_blank (compounds_table [''HARD'', ''SOFT''])
   \<and> snd (encode_physics_features (compounds_table [''HARD'', ''SOFT'', ''WET'', ''INTERMEDIATE''])) = 2
   \<and> (\<exists>r\<in>set (fst (encode_physics_features (compounds_table [''HARD'', ''SOFT'', ''WET'', ''INTERMEDIATE'']))).
         Compound_Softness r = map_compound (Compound r))"
proof -
  let ?df = "compounds_table [''HARD'', ''SOFT'', ''WET'', ''INTERMEDIATE'']"
  let ?enc = "encode_physics_features ?df"
  note inst = compound_filter[of "''UNKNOWN''" ?df]
  have h: "\<forall>r\<in>set ?df. Compound r \<in> {Some ''HARD'', Some ''SOFT'', Some ''WET'', Some ''INTERMEDIATE''}"
    by (simp add: compounds_table_def)
  have u: "''UNKNOWN'' \<notin> {''HARD'', ''MEDIUM'', ''SOFT'', ''INTERMEDIATE'', ''WET''}" by simp
  from inst have i1: "''UNKNOWN'' \<notin> {''HARD'', ''MEDIUM'', ''SOFT'', ''INTERMEDIATE'', ''WET''}
      \<longrightarrow> map_compound (Some ''UNKNOWN'') = None"
    by (elim conjE) assumption
  from inst have i2: "\<forall>r\<in>set (fst ?enc). Compound_Softness r = map_compound (Compound r)"
    by (elim conjE) assumption
  from inst have i3: "(\<forall>r\<in>set ?df. Compound r \<in> {Some ''HARD'', Some ''SOFT'', Some ''WET'', Some ''INTERMEDIATE''}) \<longrightarrow>
        map written_columns_blank (fst ?enc) =
          map written_columns_blank (filter (\<lambda>r. Compound r \<in> {Some ''HARD'', Some ''SOFT''}) ?df)
        \<and> snd ?enc =
          length (filter (\<lambda>r. Compound r = Some ''WET'') ?df)
          + length (filter (\<lambda>r. Compound r = Some ''INTERMEDIATE'') ?df)"
    by (elim conjE) assumption
  from i1 u have 1: "map_compound (Some ''UNKNOWN'') = None" by (rule mp)
  from i3 h have 23: "map written_columns_blank (fst ?enc) =
          map written_columns_blank (filter (\<lambda>r. Compound r \<in> {Some ''HARD'', Some ''SOFT''}) ?df)
        \<and> snd ?enc =
          length (filter (\<lambda>r. Compound r = Some ''WET'') ?df)
          + length (filter (\<lambda>r. Compound r = Some ''INTERMEDIATE'') ?df)" by (rule mp)
  have 4: "filter (\<lambda>r. Compound r \<in> {Some ''HARD'', Some ''SOFT''}) ?df = compounds_table [''HARD'', ''SOFT'']"
    by (simp add: compounds_table_def)
  have 5: "length (filter (\<lambda>r. Compound r = Some ''WET'') ?df)
          + length (filter (\<lambda>r. Compound r = Some ''INTERMEDIATE'') ?df) = 2"
    by (simp add: compounds_table_def)
  from 23 have 2: "map written_columns_blank (fst ?enc) = map written_columns_blank (compounds_table [''HARD'', ''SOFT''])"
    by (simp only: 4)
  from 23 have 3: "snd ?enc = 2" by (simp only: 5)
  have "length (fst ?enc) = length (compounds_table [''HARD'', ''SOFT''])"
    using arg_cong[OF 2, of length] by (simp only: length_map)
  then have "fst ?enc \<noteq> []" by (auto simp: compounds_table_def)
  then obtain r where r: "r \<in> set (fst ?enc)"
    by (cases "fst ?enc") auto
  with i2 have "Compound_Softness r = map_compound (Compound r)" by (rule bspec)
  with r have 6: "\<exists>r\<in>set (fst ?enc). Compound_Softness r = map_compound (Compound r)" by (rule bexI[rotated])
  have c: "map Compound ?df = [Some ''HARD'', Some ''SOFT'', Some ''WET'', Some ''INTERMEDIATE'']"
    by (simp add: compounds_table_def)
  show ?thesis by (intro conjI c u 1 2 3 6)
qed









subsection \<open>Fuel mass\<close>

lemma race_lengths_Max:
  "race_lengths df k =
     (if race_group df k = [] then None else Some (Max (LapNumber ` set (race_group df k))))"
proof (cases "map LapNumber (race_group df k)")
  case Nil
  then show ?thesis by (simp add: race_lengths_def)
next
  case (Cons x xs)
  then have "fold max xs x = Max (set (map LapNumber (race_group df k)))"
    by (simp only: Max.set_eq_fold)
  with Cons show ?thesis by (auto simp: race_lengths_def)
qed

lemma clip_lower_max: "clip_lower lo x = max x lo"
  by (simp add: clip_lower_def max_def)

lemma get_fuel_eq:
  "get_fuel lengths r =
     ((case lengths (race_of r) of Some t \<Rightarrow> t | None \<Rightarrow> 55) - LapNumber r) * 1.7 + 5"
  by (simp add: get_fuel_def race_of_def)

lemma fuel_of_row:
  assumes "r \<in> set df"
  shows "clip_lower 2.0 (get_fuel (race_lengths df) r) =
     max ((Max (LapNumber ` set (race_group df (race_of r))) - LapNumber r) * 1.7 + 5) 2.0"
proof -
  from assms have "race_group df (race_of r) \<noteq> []"
    using race_group_member by fastforce
  then show ?thesis by (simp add: clip_lower_max get_fuel_eq race_lengths_Max)
qed

lemma calculate_fuel_mass_rows:
  "calculate_fuel_mass df =
     map (\<lambda>r. r\<lparr>FuelMass := Some (max ((Max (LapNumber ` set (race_group df (race_of r)))
                                           - LapNumber r) * 1.7 + 5) 2.0)\<rparr>) df"
  unfolding calculate_fuel_mass_def Let_def
  by (rule map_cong[OF refl]) (simp only: fuel_of_row)

text \<open>
  C9. For two rows of the same race, if the lap number of the first is at most that of the
  second, then after calculate\_fuel\_mass the FuelMass of the first is at least that of
  the second.
\<close>

theorem fuel_mass_nonincreasing:
  assumes "i < length df" and "j < length df"
    and "race_of (df ! i) = race_of (df ! j)"
    and "LapNumber (df ! i) \<le> LapNumber (df ! j)"
  shows "\<exists>f g. FuelMass (calculate_fuel_mass df ! i) = Some f
     \<and> FuelMass (calculate_fuel_mass df ! j) = Some g \<and> g \<le> f"
proof -
  let ?T = "Max (LapNumber ` set (race_group df (race_of (df ! j))))"
  let ?f = "max ((?T - LapNumber (df ! i)) * 1.7 + 5) 2.0"
  let ?g = "max ((?T - LapNumber (df ! j)) * 1.7 + 5) 2.0"
  have "FuelMass (calculate_fuel_mass df ! i) = Some ?f"
    using assms(1,3) by (simp add: calculate_fuel_mass_rows)
  moreover have "FuelMass (calculate_fuel_mass df ! j) = Some ?g"
    using assms(2) by (simp add: calculate_fuel_mass_rows)
  moreover have "?g \<le> ?f"
    using assms(4) by (intro max.mono) simp_all
  ultimately show ?thesis by blast
qed


theorem fuel_mass_nonincreasing_witness:
  "(0::nat) < length (lap_numbers_table [10, 50]) \<and> (1::nat) < length (lap_numbers_table [10, 50])
   \<and> race_of (lap_numbers_table [10, 50] ! 0) = race_of (lap_numbers_table [10, 50] ! 1)
   \<and> LapNumber (lap_numbers_table [10, 50] ! 0) \<le> LapNumber (lap_numbers_table [10, 50] ! 1)
   \<and> (\<exists>f g. FuelMass (calculate_fuel_mass (lap_numbers_table [10, 50]) ! 0) = Some f
     \<and> FuelMass (calculate_fuel_mass (lap_numbers_table [10, 50]) ! 1) = Some g \<and> g \<le> f)"
proof -
  let ?df = "lap_numbers_table [10, 50]"
  have a: "(0::nat) < length ?df" and b: "(1::nat) < length ?df"
    by (simp_all add: lap_numbers_table_def)
  have c: "race_of (?df ! 0) = race_of (?df ! 1)"
    by (simp add: lap_numbers_table_def race_of_def)
  have d: "LapNumber (?df ! 0) \<le> LapNumber (?df ! 1)"
    by (simp add: lap_numbers_table_def)
  from fuel_mass_nonincreasing[OF a b c d] a b c d show ?thesis by (intro conjI)
qed



subsection \<open>Weather interpolation\<close>





lemma zip_map_self:
  "map (\<lambda>(l, v). g v l) (zip ls (map f ls)) = map (\<lambda>l. g (f l) l) ls"
  by (induction ls) simp_all

lemma interp_column_ok:
  assumes "weather \<noteq> []"
  shows "interp_column col assign weather ls =
     Inr (map (\<lambda>l. assign (Some (interp_point (map Weather_Time weather) (map col weather) (Time l))) l) ls)"
  using assms zip_map_self[of "\<lambda>v l. assign (Some v) l" ls "\<lambda>l. interp_point (map Weather_Time weather) (map col weather) (Time l)"]
  by (simp add: interp_column_def np_interp_def o_def zip_map2 split_def)

lemma interp_column_empty: "interp_column col assign [] ls = Inl ValueError"
  by (simp add: interp_column_def np_interp_def)

lemma enrich_ok:
  assumes "weather_data s \<noteq> []"
  shows "enrich_laps_with_weather s =
     Inr (map (\<lambda>l. l\<lparr>AirTemp := Some (channel_at (weather_data s) Weather_AirTemp (Time l)),
                      TrackTemp := Some (channel_at (weather_data s) Weather_TrackTemp (Time l)),
                      Humidity := Some (channel_at (weather_data s) Weather_Humidity (Time l)),
                      Rainfall := Some (channel_at (weather_data s) Weather_Rainfall (Time l))\<rparr>)
            (laps s))"
  using assms
  by (simp add: enrich_laps_with_weather_def Let_def interp_column_ok o_def channel_at_def)

lemma enrich_empty:
  "weather_data s = [] \<Longrightarrow> enrich_laps_with_weather s = Inl ValueError"
  by (simp add: enrich_laps_with_weather_def Let_def interp_column_empty)


lemma channel_at_single: "channel_at [w] col t = col w"
  by (simp add: channel_at_def interp_point_def Let_def)





subsection \<open>Short weather series and the lap filter\<close>

lemma enrich_single:
  assumes "weather_data s = [w]"
  shows "enrich_laps_with_weather s =
     Inr (map (\<lambda>l. l\<lparr>AirTemp := Some (Weather_AirTemp w), TrackTemp := Some (Weather_TrackTemp w),
                      Humidity := Some (Weather_Humidity w), Rainfall := Some (Weather_Rainfall w)\<rparr>)
            (laps s))"
proof -
  from assms have "weather_data s \<noteq> []" by simp
  then show ?thesis by (simp add: enrich_ok assms channel_at_single)
qed

lemma process_race_enrich_error:
  assumes "load_session year (Schedule_RoundNumber race) = Inr s"
    and "enrich_laps_with_weather s = Inl e"
  shows "process_race load_session year race = None"
  using assms by (simp add: process_race_def Let_def)

lemma process_race_all_laps:
  assumes "load_session year (Schedule_RoundNumber race) = Inr s"
    and "pick_wo_box (pick_accurate (laps s)) \<noteq> []"
    and "weather_data s \<noteq> []"
  shows "\<exists>rows. process_race load_session year race = Some rows
     \<and> map LapNumber rows = map LapNumber (laps s)"
  using assms by (simp add: process_race_def Let_def enrich_ok o_def keep_cols_def)

text \<open>
  C3, amended. With exactly one weather sample every lap receives that sample's value for
  each channel. With an empty series enrich\_laps\_with\_weather raises ValueError, and
  process\_season skips the round.
\<close>

theorem weather_short_series:
  "(weather_data s = [w] \<longrightarrow>
      enrich_laps_with_weather s =
        Inr (map (\<lambda>l. l\<lparr>AirTemp := Some (Weather_AirTemp w), TrackTemp := Some (Weather_TrackTemp w),
                         Humidity := Some (Weather_Humidity w), Rainfall := Some (Weather_Rainfall w)\<rparr>)
               (laps s)))
   \<and> (weather_data s = [] \<longrightarrow>
        enrich_laps_with_weather s = Inl ValueError
        \<and> (load_session year (Schedule_RoundNumber race) = Inr s \<longrightarrow>
             process_race load_session year race = None))"
  using enrich_single[of s w] enrich_empty[of s]
    process_race_enrich_error[of load_session year race s ValueError]
  by blast

text \<open>
  C3 as stated fails: with an empty weather series the laps receive no value, the function
  raises ValueError.
\<close>

theorem weather_empty_counterexample:
  "enrich_laps_with_weather \<lparr>laps = [lap0], weather_data = []\<rparr> = Inl ValueError"
  by (simp add: enrich_empty)

theorem weather_short_series_witness:
  "(\<exists>out. enrich_laps_with_weather (session0\<lparr>weather_data := [hd weather0]\<rparr>) = Inr out
       \<and> map AirTemp out = [Some 20, Some 20, Some 20])
   \<and> enrich_laps_with_weather (session0\<lparr>weather_data := []\<rparr>) = Inl ValueError
   \<and> process_race (\<lambda>year round_number. Inr (session0\<lparr>weather_data := []\<rparr>)) 2022 race0 = None"
proof -
  let ?s1 = "session0\<lparr>weather_data := [hd weather0]\<rparr>"
  let ?s0 = "session0\<lparr>weather_data := []\<rparr>"
  let ?load = "\<lambda>(year::int) (round_number::int). (Inr ?s0 :: error + session)"
  have a: "weather_data ?s1 = [hd weather0]" and b: "weather_data ?s0 = []" by simp_all
  have c: "?load 2022 (Schedule_RoundNumber race0) = Inr ?s0" by simp
  from weather_short_series[of ?s1 "hd weather0"] a
  have 1: "enrich_laps_with_weather ?s1 =
        Inr (map (\<lambda>l. l\<lparr>AirTemp := Some (Weather_AirTemp (hd weather0)),
                         TrackTemp := Some (Weather_TrackTemp (hd weather0)),
                         Humidity := Some (Weather_Humidity (hd weather0)),
                         Rainfall := Some (Weather_Rainfall (hd weather0))\<rparr>)
               (laps ?s1))"
    by blast
  have 2: "map AirTemp (map (\<lambda>l. l\<lparr>AirTemp := Some (Weather_AirTemp (hd weather0)),
                         TrackTemp := Some (Weather_TrackTemp (hd weather0)),
                         Humidity := Some (Weather_Humidity (hd weather0)),
                         Rainfall := Some (Weather_Rainfall (hd weather0))\<rparr>)
               (laps ?s1)) = [Some 20, Some 20, Some 20]"
    by (simp add: session0_def weather0_def)
  from weather_short_series[of ?s0 _ ?load 2022 race0] b c
  have 3: "enrich_laps_with_weather ?s0 = Inl ValueError"
    and 4: "process_race ?load 2022 race0 = None"
    by blast+
  from 1 2 have "\<exists>out. enrich_laps_with_weather ?s1 = Inr out
       \<and> map AirTemp out = [Some 20, Some 20, Some 20]"
    by (intro exI conjI)
  with 3 4 show ?thesis by (intro conjI)
qed

text \<open>
  C1. The claim is that no lap that fails the filter (flagged accurate, no pit-in or pit-out
  time) reaches the season table. process\_season computes the filtered laps, tests them
  for emptiness only, and then takes the laps of the table from
  enrich\_laps\_with\_weather(session), which reads \<open>session.laps\<close>: for a session whose
  second lap is not accurate, the season table holds all three laps.
\<close>

theorem season_keeps_inaccurate_lap:
  "map IsAccurate (laps session0) = [True, False, True]
   \<and> map LapNumber (pick_wo_box (pick_accurate (laps session0))) = [1, 3]
   \<and> map_option (map LapNumber) (process_season load0 [race0] 2022) = Some [1, 2, 3]"
proof -
  have a: "map IsAccurate (laps session0) = [True, False, True]"
    by (simp add: session0_def lap0_def)
  have b: "map LapNumber (pick_wo_box (pick_accurate (laps session0))) = [1, 3]"
    by (simp add: session0_def lap0_def pick_accurate_def pick_wo_box_def)
  then have ne: "pick_wo_box (pick_accurate (laps session0)) \<noteq> []" by auto
  have w: "weather_data session0 \<noteq> []" by (simp add: session0_def weather0_def)
  have l: "load0 2022 (Schedule_RoundNumber race0) = Inr session0" by (simp add: load0_def)
  from process_race_all_laps[of load0 2022 race0 session0, OF l ne w] obtain rows where
    r: "process_race load0 2022 race0 = Some rows" "map LapNumber rows = map LapNumber (laps session0)"
    by blast
  have f: "Schedule_EventFormat race0 \<noteq> ''testing''"
    by (simp add: race0_def)
  have "process_season load0 [race0] 2022 = Some (map (\<lambda>r. r\<lparr>LapTimeSeconds := LapTime r\<rparr>) rows)"
    by (simp add: process_season_def Let_def f r(1))
  then have "map_option (map LapNumber) (process_season load0 [race0] 2022) = Some (map LapNumber (laps session0))"
    by (simp add: o_def r(2))
  also have "map LapNumber (laps session0) = [1, 2, 3]" by (simp add: session0_def lap0_def)
  finally show ?thesis using a b by simp
qed

end
